theory Spec2Isabelle
  imports Main "HOL-Library.Word"
begin

unbundle bit_operations_syntax

section \<open>Transactions (transaction/rw\_utils.h)\<close>

text \<open>
  The header \<^verbatim>\<open>base/transaction.h\<close> is not among the sources. The three constants of
  it that the inline functions of \<^verbatim>\<open>rw_utils.h\<close> read are taken as parameters.
\<close>

record transaction_consts =
  FROM_CLIENT :: nat
  AS_TRANSACTION_FLAG_SWITCH_TO_COMMIT_ALL :: nat
  AS_TRANSACTION_FLAG_IS_DELETE :: nat

datatype as_write_commit_level = AS_WRITE_COMMIT_LEVEL_ALL | AS_WRITE_COMMIT_LEVEL_MASTER

text \<open>
  The fields of \<^verbatim>\<open>as_transaction\<close> that the inline functions touch. They are unsigned
  C integers; nothing below overflows, so they are naturals. The field
  \<open>tr_write_commit_level\<close> holds what the macro \<^verbatim>\<open>TR_WRITE_COMMIT_LEVEL(tr)\<close>
  evaluates to. Every other field of the struct is in the record's extension.
\<close>

record as_transaction =
  tr_origin :: nat
  tr_flags :: nat
  tr_write_commit_level :: as_write_commit_level
  tr_generation :: nat
  tr_void_time :: nat
  tr_last_update_time :: nat

definition respond_on_master_complete ::
  "transaction_consts \<Rightarrow> 'a as_transaction_scheme \<Rightarrow> bool" where
  "respond_on_master_complete K tr \<longleftrightarrow>
     tr_origin tr = FROM_CLIENT K \<and>
     tr_write_commit_level tr = AS_WRITE_COMMIT_LEVEL_MASTER \<and>
     (tr_flags tr AND AS_TRANSACTION_FLAG_SWITCH_TO_COMMIT_ALL K) = 0"

definition clear_delete_response_metadata ::
  "transaction_consts \<Rightarrow> 'a as_transaction_scheme \<Rightarrow> 'a as_transaction_scheme" where
  "clear_delete_response_metadata K tr =
     (if (tr_flags tr AND AS_TRANSACTION_FLAG_IS_DELETE K) \<noteq> 0
      then tr\<lparr>tr_generation := 0, tr_void_time := 0, tr_last_update_time := 0\<rparr>
      else tr)"

section \<open>Wire message fields (transaction/rw\_request\_hash.h)\<close>

text \<open>
  The enumerators of \<^verbatim>\<open>rw_msg_field\<close>. None has an initialiser, so C numbers them
  0, 1, 2, ... in the order of declaration: the ordinal of an enumerator is its position
  in the declaration.
\<close>

datatype rw_msg_field =
    RW_FIELD_OP
  | RW_FIELD_RESULT
  | RW_FIELD_NAMESPACE
  | RW_FIELD_NS_IX
  | RW_FIELD_GENERATION
  | RW_FIELD_DIGEST
  | RW_FIELD_RECORD
  | RW_FIELD_UNUSED_7
  | RW_FIELD_UNUSED_8
  | RW_FIELD_UNUSED_9
  | RW_FIELD_TID
  | RW_FIELD_UNUSED_11
  | RW_FIELD_INFO
  | RW_FIELD_UNUSED_13
  | RW_FIELD_UNUSED_14
  | RW_FIELD_UNUSED_15
  | RW_FIELD_LAST_UPDATE_TIME
  | RW_FIELD_UNUSED_17
  | RW_FIELD_UNUSED_18
  | RW_FIELD_REGIME
  | NUM_RW_FIELDS

definition rw_msg_field_decl :: "rw_msg_field list" where
  "rw_msg_field_decl =
     [RW_FIELD_OP, RW_FIELD_RESULT, RW_FIELD_NAMESPACE, RW_FIELD_NS_IX, RW_FIELD_GENERATION,
      RW_FIELD_DIGEST, RW_FIELD_RECORD, RW_FIELD_UNUSED_7, RW_FIELD_UNUSED_8,
      RW_FIELD_UNUSED_9, RW_FIELD_TID, RW_FIELD_UNUSED_11, RW_FIELD_INFO, RW_FIELD_UNUSED_13,
      RW_FIELD_UNUSED_14, RW_FIELD_UNUSED_15, RW_FIELD_LAST_UPDATE_TIME, RW_FIELD_UNUSED_17,
      RW_FIELD_UNUSED_18, RW_FIELD_REGIME, NUM_RW_FIELDS]"

fun enum_position :: "'a list \<Rightarrow> 'a \<Rightarrow> nat" where
  "enum_position [] x = 0"
| "enum_position (y # ys) x = (if x = y then 0 else Suc (enum_position ys x))"

definition rw_msg_field_ordinal :: "rw_msg_field \<Rightarrow> nat" where
  "rw_msg_field_ordinal f = enum_position rw_msg_field_decl f"

text \<open>The slots the header keeps under a name \<^verbatim>\<open>RW_FIELD_UNUSED_<n>\<close>.\<close>

definition rw_msg_field_unused :: "rw_msg_field \<Rightarrow> bool" where
  "rw_msg_field_unused f \<longleftrightarrow>
     f \<in> set [RW_FIELD_UNUSED_7, RW_FIELD_UNUSED_8, RW_FIELD_UNUSED_9, RW_FIELD_UNUSED_11,
              RW_FIELD_UNUSED_13, RW_FIELD_UNUSED_14, RW_FIELD_UNUSED_15, RW_FIELD_UNUSED_17,
              RW_FIELD_UNUSED_18]"

section \<open>Index metadata stash and unwind (transaction/rw\_utils.h)\<close>

record index_metadata =
  void_time :: "32 word"
  last_update_time :: "64 word"
  generation :: "16 word"
  has_bin_meta :: bool
  xdr_write :: bool
  tombstone :: bool
  cenotaph :: bool
  xdr_tombstone :: bool
  xdr_nsup_tombstone :: bool
  xdr_bin_cemetery :: bool

text \<open>
  Modelled from the spec: \<^verbatim>\<open>struct as_index_s\<close> is missing from the sources. Of a
  record's index entry the model has "the mutable fields of a record's index entry" that
  the snapshot captures, with the types \<^verbatim>\<open>index_metadata\<close> gives them; everything else
  of the entry is in the record's extension.
\<close>

record as_index =
  r_void_time :: "32 word"
  r_last_update_time :: "64 word"
  r_generation :: "16 word"
  r_has_bin_meta :: bool
  r_xdr_write :: bool
  r_tombstone :: bool
  r_cenotaph :: bool
  r_xdr_tombstone :: bool
  r_xdr_nsup_tombstone :: bool
  r_xdr_bin_cemetery :: bool

text \<open>
  Modelled from the spec: the body of \<^verbatim>\<open>stash_index_metadata\<close> is missing from the
  sources (\<^verbatim>\<open>rw_utils.h\<close> declares it). It "captures void\_time, last\_update\_time,
  generation, and all edition-specific flags before mutation". The C function fills
  \<^verbatim>\<open>*old\<close>; here the snapshot is the result.
\<close>

definition stash_index_metadata :: "'a as_index_scheme \<Rightarrow> index_metadata" where
  "stash_index_metadata r =
     \<lparr>void_time = r_void_time r,
      last_update_time = r_last_update_time r,
      generation = r_generation r,
      has_bin_meta = r_has_bin_meta r,
      xdr_write = r_xdr_write r,
      tombstone = r_tombstone r,
      cenotaph = r_cenotaph r,
      xdr_tombstone = r_xdr_tombstone r,
      xdr_nsup_tombstone = r_xdr_nsup_tombstone r,
      xdr_bin_cemetery = r_xdr_bin_cemetery r\<rparr>"

text \<open>
  Modelled from the spec: the body of \<^verbatim>\<open>unwind_index_metadata\<close> is missing from the
  sources (\<^verbatim>\<open>rw_utils.h\<close> declares it). It "restores every captured field verbatim".
\<close>

definition unwind_index_metadata ::
  "index_metadata \<Rightarrow> 'a as_index_scheme \<Rightarrow> 'a as_index_scheme" where
  "unwind_index_metadata old r =
     r\<lparr>r_void_time := void_time old,
       r_last_update_time := last_update_time old,
       r_generation := generation old,
       r_has_bin_meta := has_bin_meta old,
       r_xdr_write := xdr_write old,
       r_tombstone := tombstone old,
       r_cenotaph := cenotaph old,
       r_xdr_tombstone := xdr_tombstone old,
       r_xdr_nsup_tombstone := xdr_nsup_tombstone old,
       r_xdr_bin_cemetery := xdr_bin_cemetery old\<rparr>"

section \<open>Request registry (transaction/rw\_request\_hash.h)\<close>

text \<open>The packed key: namespace index and 20-byte (160-bit) record digest.\<close>

record rw_request_hkey =
  ns_ix :: "32 word"
  keyd :: "160 word"

text \<open>
  Modelled from the spec: the table itself is missing from the sources. It is the list
  of the stored pairs of a key and the pointer to its \<^verbatim>\<open>rw_request\<close>; the pointer (an
  address) is the identity of an entry.
\<close>

type_synonym rw_request_ptr = nat

type_synonym rw_request_hash = "(rw_request_hkey \<times> rw_request_ptr) list"

text \<open>
  Modelled from the spec: the body of \<^verbatim>\<open>as_rw_init\<close> is missing from the sources. The
  registry starts with no entry.
\<close>

definition as_rw_init :: "rw_request_hash" where
  "as_rw_init = []"

text \<open>
  Modelled from the spec: the body of \<^verbatim>\<open>rw_request_hash_count\<close> is missing from the
  sources. "\<open>count() -> integer\<close>", the number of active entries.
\<close>

definition rw_request_hash_count :: "rw_request_hash \<Rightarrow> nat" where
  "rw_request_hash_count t = length t"

text \<open>
  Modelled from the spec: the body of \<^verbatim>\<open>rw_request_hash_get\<close> is missing from the
  sources. "\<open>lookup(key) -> Option<EntryHandle>\<close>": the entry stored under the key, if any.
\<close>

definition rw_request_hash_get :: "rw_request_hkey \<Rightarrow> rw_request_hash \<Rightarrow> rw_request_ptr option" where
  "rw_request_hash_get hkey t = map_of t hkey"

text \<open>
  Modelled from the spec: the body of \<^verbatim>\<open>rw_request_hash_insert\<close> and the type
  \<^verbatim>\<open>transaction_status\<close> it returns are missing from the sources.
  "\<open>insert(key, new_entry) -> Accepted | Rejected(reason)\<close>; rejects if an entry for
  \<open>key\<close> already exists". The result is the status and the table after the call.
\<close>

datatype reject_reason = Key_In_Progress

datatype insert_status = Accepted | Rejected reject_reason

definition rw_request_hash_insert ::
  "rw_request_hkey \<Rightarrow> rw_request_ptr \<Rightarrow> rw_request_hash \<Rightarrow> insert_status \<times> rw_request_hash" where
  "rw_request_hash_insert hkey rw t =
     (case rw_request_hash_get hkey t of
        Some rw0 \<Rightarrow> (Rejected Key_In_Progress, t)
      | None \<Rightarrow> (Accepted, (hkey, rw) # t))"

text \<open>
  Modelled from the spec: the body of \<^verbatim>\<open>rw_request_hash_delete\<close> is missing from the
  sources. "\<open>remove(key, entry)\<close>; removes only if the stored entry's identity matches".
\<close>

definition rw_request_hash_delete ::
  "rw_request_hkey \<Rightarrow> rw_request_ptr \<Rightarrow> rw_request_hash \<Rightarrow> rw_request_hash" where
  "rw_request_hash_delete hkey rw t =
     (if rw_request_hash_get hkey t = Some rw then filter (\<lambda>e. fst e \<noteq> hkey) t else t)"

text \<open>The registry operations that change the table, and a run of them from the empty table.\<close>

datatype registry_op =
    Insert rw_request_hkey rw_request_ptr
  | Delete rw_request_hkey rw_request_ptr

fun registry_apply :: "registry_op \<Rightarrow> rw_request_hash \<Rightarrow> rw_request_hash" where
  "registry_apply (Insert hkey rw) t = snd (rw_request_hash_insert hkey rw t)"
| "registry_apply (Delete hkey rw) t = rw_request_hash_delete hkey rw t"

definition registry_run :: "registry_op list \<Rightarrow> rw_request_hash" where
  "registry_run ops = fold registry_apply ops as_rw_init"

section \<open>Registering a UDF file (base/udf\_cask.c)\<close>

text \<open>
  C strings are lists of characters without the terminating NUL. \<open>strchr\<close> gives the
  offset of the first occurrence from the start of the string (the C function returns
  the pointer there), \<open>None\<close> for the NULL pointer.
\<close>

fun strchr :: "string \<Rightarrow> char \<Rightarrow> nat option" where
  "strchr [] c = None"
| "strchr (x # xs) c = (if x = c then Some 0 else map_option Suc (strchr xs c))"

definition strlen :: "string \<Rightarrow> nat" where
  "strlen s = length s"

definition as_udf_type_name :: "string list" where
  "as_udf_type_name = [''LUA'']"

fun udf_type_scan :: "string list \<Rightarrow> int \<Rightarrow> string \<Rightarrow> int" where
  "udf_type_scan [] index type = - 1"
| "udf_type_scan (n # ns) index type =
     (if type = n then index else udf_type_scan ns (index + 1) type)"

definition udf_type_getid :: "string \<Rightarrow> int" where
  "udf_type_getid type = udf_type_scan as_udf_type_name 0 type"

record as_module_error =
  err_file :: string
  err_line :: nat
  err_message :: string

text \<open>
  What \<^verbatim>\<open>udf_cask_info_put\<close> calls and the sources do not hold, taken as parameters:
  \<^item> \<open>as_info_parameter_get params name size\<close>: the return code (0 for success) and the
    value copied into the caller's buffer of the given size;
  \<^item> \<open>atoi\<close> of the C library;
  \<^item> \<open>cf_b64_decoded_buf_size\<close>, \<open>cf_b64_validate_and_decode\<close> (\<open>None\<close> when the
    content is not valid base64) and \<open>cf_b64_encode\<close>;
  \<^item> the constant \<open>MAX_UDF_CONTENT_LENGTH\<close>;
  \<^item> \<open>as_module_validate\<close>: \<open>None\<close> for return code 0, the error otherwise;
  \<^item> \<open>uint32_str\<close>: the digits \<^verbatim>\<open>cf_dyn_buf_append_uint32\<close> appends;
  \<^item> \<open>json_udf_object content64 type name\<close>: the string \<^verbatim>\<open>json_dumps\<close> gives for the
    object with these three members, \<open>None\<close> when \<^verbatim>\<open>json_object\<close> or a
    \<^verbatim>\<open>json_object_set_new\<close> fails;
  \<^item> \<open>as_smd_set_blocking key value\<close>: false on timeout.
\<close>

record udf_env =
  as_info_parameter_get :: "string \<Rightarrow> string \<Rightarrow> int \<Rightarrow> int \<times> string"
  atoi :: "string \<Rightarrow> int"
  cf_b64_decoded_buf_size :: "nat \<Rightarrow> nat"
  cf_b64_validate_and_decode :: "string \<Rightarrow> string option"
  cf_b64_encode :: "string \<Rightarrow> string"
  MAX_UDF_CONTENT_LENGTH :: nat
  as_module_validate :: "string \<Rightarrow> string \<Rightarrow> as_module_error option"
  uint32_str :: "nat \<Rightarrow> string"
  json_udf_object :: "string \<Rightarrow> string \<Rightarrow> string \<Rightarrow> string option"
  as_smd_set_blocking :: "string \<Rightarrow> string \<Rightarrow> bool"

text \<open>
  What the call does besides writing to the output buffer: decoding the content,
  validating the module, and handing the UDF to the system metadata service.
\<close>

datatype udf_event =
    B64_DECODE string
  | MODULE_VALIDATE string string
  | SMD_SET string string

text \<open>The result: the return code, the output buffer, and the events in order.\<close>

definition udf_cask_info_put ::
  "udf_env \<Rightarrow> string \<Rightarrow> string \<Rightarrow> string \<Rightarrow> int \<times> string \<times> udf_event list" where
  "udf_cask_info_put E name params out =
     (let (rc_filename, filename) = as_info_parameter_get E params ''filename'' 128 in
      if rc_filename \<noteq> 0 \<or>
         (case strchr filename CHR ''.'' of
            None \<Rightarrow> True
          | Some tmp_char \<Rightarrow> tmp_char = 0 \<or> strlen (drop tmp_char filename) \<le> 1)
      then (0, out @ ''error=invalid_filename'', [])
      else
      let (rc_content_len, content_len) = as_info_parameter_get E params ''content-len'' 32 in
      if rc_content_len \<noteq> 0
      then (0, out @ ''error=invalid_content_len'', [])
      else
      let (rc_type, type_param) = as_info_parameter_get E params ''udf-type'' 8;
          type = (if rc_type \<noteq> 0 then as_udf_type_name ! 0 else type_param) in
      if udf_type_getid type = - 1
      then (0, out @ ''error=invalid_udf_type'', [])
      else
      let udf_content_len = atoi E content_len + 1;
          (rc_content, udf_content) = as_info_parameter_get E params ''content'' udf_content_len in
      if rc_content \<noteq> 0
      then (0, out @ ''error=invalid_content'', [])
      else
      let encoded_len = strlen udf_content;
          decoded_len = cf_b64_decoded_buf_size E encoded_len + 1 in
      if decoded_len > MAX_UDF_CONTENT_LENGTH E
      then (0, out @ ''error=invalid_udf_content_len, lua file size > 1MB'', [])
      else
      (case cf_b64_validate_and_decode E udf_content of
         None \<Rightarrow> (0, out @ ''error=invalid_base64_content'', [B64_DECODE udf_content])
       | Some decoded_str \<Rightarrow>
         (case as_module_validate E filename decoded_str of
            Some err \<Rightarrow>
              (0,
               out @ ''error=compile_error'' @ '';file='' @ err_file err @ '';line='' @
                 uint32_str E (err_line err) @ '';message='' @ cf_b64_encode E (err_message err),
               [B64_DECODE udf_content, MODULE_VALIDATE filename decoded_str])
          | None \<Rightarrow>
            (case json_udf_object E udf_content type filename of
               None \<Rightarrow>
                 (- 1, out, [B64_DECODE udf_content, MODULE_VALIDATE filename decoded_str])
             | Some udf_obj_str \<Rightarrow>
                 if as_smd_set_blocking E filename udf_obj_str
                 then (0, out,
                       [B64_DECODE udf_content, MODULE_VALIDATE filename decoded_str,
                        SMD_SET filename udf_obj_str])
                 else (0, out @ ''error=timeout'',
                       [B64_DECODE udf_content, MODULE_VALIDATE filename decoded_str,
                        SMD_SET filename udf_obj_str])))))"

text \<open>
  An info command as a client can send it, for the file name \<^verbatim>\<open>a.b.\<close> with the content
  \<^verbatim>\<open>QQ==\<close> (base64 of \<^verbatim>\<open>A\<close>), on a node where the module validates and the metadata
  service answers in time. On this command \<open>as_info_parameter_get\<close> finds the three
  parameters of \<open>put_params\<close> and no other.
\<close>

definition put_command :: string where
  "put_command = ''filename=a.b.;content=QQ==;content-len=4;''"

definition put_params :: "(string \<times> string) list" where
  "put_params = [(''filename'', ''a.b.''), (''content'', ''QQ==''), (''content-len'', ''4'')]"

definition put_env :: udf_env where
  "put_env =
     \<lparr>as_info_parameter_get =
        (\<lambda>params name size.
           if params = put_command
           then (case map_of put_params name of None \<Rightarrow> (- 1, []) | Some v \<Rightarrow> (0, v))
           else (- 1, [])),
      atoi = (\<lambda>s. if s = ''4'' then 4 else 0),
      cf_b64_decoded_buf_size = (\<lambda>n. (n * 3) div 4),
      cf_b64_validate_and_decode = (\<lambda>s. if s = ''QQ=='' then Some ''A'' else None),
      cf_b64_encode = (\<lambda>s. []),
      MAX_UDF_CONTENT_LENGTH = 1048576,
      as_module_validate = (\<lambda>filename content. None),
      uint32_str = (\<lambda>n. []),
      json_udf_object = (\<lambda>content64 type name. Some (name @ '':'' @ type @ '':'' @ content64)),
      as_smd_set_blocking = (\<lambda>key value. True)\<rparr>"

section \<open>Properties\<close>

subsection \<open>Response metadata of a write that became a delete\<close>

text \<open>
  C9. \<open>clear_delete_response_metadata\<close> sets generation, void-time and last-update-time of
  the transaction to 0 when the transaction's flags carry \<^verbatim>\<open>AS_TRANSACTION_FLAG_IS_DELETE\<close>,
  changing no other field; without the flag it returns the transaction as it was.
\<close>

theorem clear_delete_response_metadata_frame:
  "((tr_flags tr AND AS_TRANSACTION_FLAG_IS_DELETE K) \<noteq> 0 \<longrightarrow>
      clear_delete_response_metadata K tr =
        tr\<lparr>tr_generation := 0, tr_void_time := 0, tr_last_update_time := 0\<rparr> \<and>
      tr_generation (clear_delete_response_metadata K tr) = 0 \<and>
      tr_void_time (clear_delete_response_metadata K tr) = 0 \<and>
      tr_last_update_time (clear_delete_response_metadata K tr) = 0 \<and>
      tr_origin (clear_delete_response_metadata K tr) = tr_origin tr \<and>
      tr_flags (clear_delete_response_metadata K tr) = tr_flags tr \<and>
      tr_write_commit_level (clear_delete_response_metadata K tr) = tr_write_commit_level tr \<and>
      as_transaction.more (clear_delete_response_metadata K tr) = as_transaction.more tr) \<and>
   ((tr_flags tr AND AS_TRANSACTION_FLAG_IS_DELETE K) = 0 \<longrightarrow>
      clear_delete_response_metadata K tr = tr)"
  by (simp add: clear_delete_response_metadata_def)

theorem clear_delete_response_metadata_frame_witness:
  "clear_delete_response_metadata
     \<lparr>FROM_CLIENT = 1, AS_TRANSACTION_FLAG_SWITCH_TO_COMMIT_ALL = 8,
      AS_TRANSACTION_FLAG_IS_DELETE = 16\<rparr>
     \<lparr>tr_origin = 1, tr_flags = 18, tr_write_commit_level = AS_WRITE_COMMIT_LEVEL_ALL,
      tr_generation = 7, tr_void_time = 3600, tr_last_update_time = 1200\<rparr>
   = \<lparr>tr_origin = 1, tr_flags = 18, tr_write_commit_level = AS_WRITE_COMMIT_LEVEL_ALL,
      tr_generation = 0, tr_void_time = 0, tr_last_update_time = 0\<rparr> \<and>
   clear_delete_response_metadata
     \<lparr>FROM_CLIENT = 1, AS_TRANSACTION_FLAG_SWITCH_TO_COMMIT_ALL = 8,
      AS_TRANSACTION_FLAG_IS_DELETE = 16\<rparr>
     \<lparr>tr_origin = 1, tr_flags = 2, tr_write_commit_level = AS_WRITE_COMMIT_LEVEL_ALL,
      tr_generation = 7, tr_void_time = 3600, tr_last_update_time = 1200\<rparr>
   = \<lparr>tr_origin = 1, tr_flags = 2, tr_write_commit_level = AS_WRITE_COMMIT_LEVEL_ALL,
      tr_generation = 7, tr_void_time = 3600, tr_last_update_time = 1200\<rparr>"
  using
    clear_delete_response_metadata_frame
      [of "\<lparr>tr_origin = 1, tr_flags = 18, tr_write_commit_level = AS_WRITE_COMMIT_LEVEL_ALL,
             tr_generation = 7, tr_void_time = 3600, tr_last_update_time = 1200\<rparr>"
          "\<lparr>FROM_CLIENT = 1, AS_TRANSACTION_FLAG_SWITCH_TO_COMMIT_ALL = 8,
             AS_TRANSACTION_FLAG_IS_DELETE = 16\<rparr>"]
    clear_delete_response_metadata_frame
      [of "\<lparr>tr_origin = 1, tr_flags = 2, tr_write_commit_level = AS_WRITE_COMMIT_LEVEL_ALL,
             tr_generation = 7, tr_void_time = 3600, tr_last_update_time = 1200\<rparr>"
          "\<lparr>FROM_CLIENT = 1, AS_TRANSACTION_FLAG_SWITCH_TO_COMMIT_ALL = 8,
             AS_TRANSACTION_FLAG_IS_DELETE = 16\<rparr>"]
  by simp

subsection \<open>Responding when the master has applied the write\<close>

text \<open>
  C5 (as amended). A transaction whose write commit level is MASTER is answered on
  completion of the master's apply, that is \<open>respond_on_master_complete\<close> is true,
  exactly when its origin is \<^verbatim>\<open>FROM_CLIENT\<close> and its flag
  \<^verbatim>\<open>AS_TRANSACTION_FLAG_SWITCH_TO_COMMIT_ALL\<close> is clear.
\<close>

theorem respond_on_master_complete_master:
  "tr_write_commit_level tr = AS_WRITE_COMMIT_LEVEL_MASTER \<Longrightarrow>
     respond_on_master_complete K tr \<longleftrightarrow>
       tr_origin tr = FROM_CLIENT K \<and>
       (tr_flags tr AND AS_TRANSACTION_FLAG_SWITCH_TO_COMMIT_ALL K) = 0"
  by (simp add: respond_on_master_complete_def)

theorem respond_on_master_complete_master_witness:
  "tr_write_commit_level
     \<lparr>tr_origin = 1, tr_flags = 2, tr_write_commit_level = AS_WRITE_COMMIT_LEVEL_MASTER,
      tr_generation = 7, tr_void_time = 0, tr_last_update_time = 1200\<rparr>
     = AS_WRITE_COMMIT_LEVEL_MASTER \<and>
   respond_on_master_complete
     \<lparr>FROM_CLIENT = 1, AS_TRANSACTION_FLAG_SWITCH_TO_COMMIT_ALL = 8,
      AS_TRANSACTION_FLAG_IS_DELETE = 16\<rparr>
     \<lparr>tr_origin = 1, tr_flags = 2, tr_write_commit_level = AS_WRITE_COMMIT_LEVEL_MASTER,
      tr_generation = 7, tr_void_time = 0, tr_last_update_time = 1200\<rparr>"
  using
    respond_on_master_complete_master
      [of "\<lparr>tr_origin = 1, tr_flags = 2, tr_write_commit_level = AS_WRITE_COMMIT_LEVEL_MASTER,
             tr_generation = 7, tr_void_time = 0, tr_last_update_time = 1200\<rparr>"
          "\<lparr>FROM_CLIENT = 1, AS_TRANSACTION_FLAG_SWITCH_TO_COMMIT_ALL = 8,
             AS_TRANSACTION_FLAG_IS_DELETE = 16\<rparr>"]
  by simp

text \<open>
  The claim as first stated fails: a transaction at commit level MASTER that arrived by
  proxy (origin 2 where \<^verbatim>\<open>FROM_CLIENT\<close> is 1) does not respond on master completion.
\<close>

theorem respond_on_master_complete_counterexample:
  "tr_write_commit_level
     \<lparr>tr_origin = 2, tr_flags = 0, tr_write_commit_level = AS_WRITE_COMMIT_LEVEL_MASTER,
      tr_generation = 7, tr_void_time = 0, tr_last_update_time = 1200\<rparr>
     = AS_WRITE_COMMIT_LEVEL_MASTER \<and>
   \<not> respond_on_master_complete
     \<lparr>FROM_CLIENT = 1, AS_TRANSACTION_FLAG_SWITCH_TO_COMMIT_ALL = 8,
      AS_TRANSACTION_FLAG_IS_DELETE = 16\<rparr>
     \<lparr>tr_origin = 2, tr_flags = 0, tr_write_commit_level = AS_WRITE_COMMIT_LEVEL_MASTER,
      tr_generation = 7, tr_void_time = 0, tr_last_update_time = 1200\<rparr>"
  by (simp add: respond_on_master_complete_def)

subsection \<open>Stash and unwind of the index metadata\<close>

text \<open>
  C3. Whatever happens to the record between the two calls (\<open>r'\<close> is the record after
  any mutation), unwinding the snapshot stashed from \<open>r\<close> gives a record whose
  void-time, last-update-time, generation and seven flags are those \<open>r\<close> had at the
  stash, field by field.
\<close>

theorem stash_unwind_restores:
  "r_void_time (unwind_index_metadata (stash_index_metadata r) r') = r_void_time r \<and>
   r_last_update_time (unwind_index_metadata (stash_index_metadata r) r') = r_last_update_time r \<and>
   r_generation (unwind_index_metadata (stash_index_metadata r) r') = r_generation r \<and>
   r_has_bin_meta (unwind_index_metadata (stash_index_metadata r) r') = r_has_bin_meta r \<and>
   r_xdr_write (unwind_index_metadata (stash_index_metadata r) r') = r_xdr_write r \<and>
   r_tombstone (unwind_index_metadata (stash_index_metadata r) r') = r_tombstone r \<and>
   r_cenotaph (unwind_index_metadata (stash_index_metadata r) r') = r_cenotaph r \<and>
   r_xdr_tombstone (unwind_index_metadata (stash_index_metadata r) r') = r_xdr_tombstone r \<and>
   r_xdr_nsup_tombstone (unwind_index_metadata (stash_index_metadata r) r')
     = r_xdr_nsup_tombstone r \<and>
   r_xdr_bin_cemetery (unwind_index_metadata (stash_index_metadata r) r')
     = r_xdr_bin_cemetery r"
  by (simp add: unwind_index_metadata_def stash_index_metadata_def)

subsection \<open>Ordinals of the wire message fields\<close>

lemma rw_msg_field_ordinal_simps:
  "rw_msg_field_ordinal RW_FIELD_OP = 0"
  "rw_msg_field_ordinal RW_FIELD_RESULT = 1"
  "rw_msg_field_ordinal RW_FIELD_NAMESPACE = 2"
  "rw_msg_field_ordinal RW_FIELD_NS_IX = 3"
  "rw_msg_field_ordinal RW_FIELD_GENERATION = 4"
  "rw_msg_field_ordinal RW_FIELD_DIGEST = 5"
  "rw_msg_field_ordinal RW_FIELD_RECORD = 6"
  "rw_msg_field_ordinal RW_FIELD_UNUSED_7 = 7"
  "rw_msg_field_ordinal RW_FIELD_UNUSED_8 = 8"
  "rw_msg_field_ordinal RW_FIELD_UNUSED_9 = 9"
  "rw_msg_field_ordinal RW_FIELD_TID = 10"
  "rw_msg_field_ordinal RW_FIELD_UNUSED_11 = 11"
  "rw_msg_field_ordinal RW_FIELD_INFO = 12"
  "rw_msg_field_ordinal RW_FIELD_UNUSED_13 = 13"
  "rw_msg_field_ordinal RW_FIELD_UNUSED_14 = 14"
  "rw_msg_field_ordinal RW_FIELD_UNUSED_15 = 15"
  "rw_msg_field_ordinal RW_FIELD_LAST_UPDATE_TIME = 16"
  "rw_msg_field_ordinal RW_FIELD_UNUSED_17 = 17"
  "rw_msg_field_ordinal RW_FIELD_UNUSED_18 = 18"
  "rw_msg_field_ordinal RW_FIELD_REGIME = 19"
  "rw_msg_field_ordinal NUM_RW_FIELDS = 20"
  by (simp_all add: rw_msg_field_ordinal_def rw_msg_field_decl_def)

lemma unused_slot_below_count:
  assumes "n < 20" and "n \<notin> set [0, 1, 2, 3, 4, 5, 6, 10, 12, 16, 19]"
  shows "\<exists>f. rw_msg_field_ordinal f = n \<and> rw_msg_field_unused f"
proof -
  from assms have "n \<in> {7, 8, 9, 11, 13, 14, 15, 17, 18}"
    by (simp add: less_Suc_eq numeral_eq_Suc)
  then consider "n = 7" | "n = 8" | "n = 9" | "n = 11" | "n = 13" | "n = 14" | "n = 15"
    | "n = 17" | "n = 18"
    by auto
  then show ?thesis
    by cases
      (auto simp: rw_msg_field_unused_def
         intro: exI [of _ RW_FIELD_UNUSED_7] exI [of _ RW_FIELD_UNUSED_8]
           exI [of _ RW_FIELD_UNUSED_9] exI [of _ RW_FIELD_UNUSED_11]
           exI [of _ RW_FIELD_UNUSED_13] exI [of _ RW_FIELD_UNUSED_14]
           exI [of _ RW_FIELD_UNUSED_15] exI [of _ RW_FIELD_UNUSED_17]
           exI [of _ RW_FIELD_UNUSED_18]
         simp: rw_msg_field_ordinal_simps)
qed

text \<open>
  C7. The eleven documented fields have the ordinals 0, 1, 2, 3, 4, 5, 6, 10, 12, 16, 19,
  in this order and pairwise distinct; the count \<^verbatim>\<open>NUM_RW_FIELDS\<close> is 20; and every
  other ordinal below the count belongs to an enumerator kept as an unused slot.
\<close>

theorem rw_msg_field_ordinals:
  "map rw_msg_field_ordinal
     [RW_FIELD_OP, RW_FIELD_RESULT, RW_FIELD_NAMESPACE, RW_FIELD_NS_IX, RW_FIELD_GENERATION,
      RW_FIELD_DIGEST, RW_FIELD_RECORD, RW_FIELD_TID, RW_FIELD_INFO,
      RW_FIELD_LAST_UPDATE_TIME, RW_FIELD_REGIME]
     = [0, 1, 2, 3, 4, 5, 6, 10, 12, 16, 19] \<and>
   distinct (map rw_msg_field_ordinal
     [RW_FIELD_OP, RW_FIELD_RESULT, RW_FIELD_NAMESPACE, RW_FIELD_NS_IX, RW_FIELD_GENERATION,
      RW_FIELD_DIGEST, RW_FIELD_RECORD, RW_FIELD_TID, RW_FIELD_INFO,
      RW_FIELD_LAST_UPDATE_TIME, RW_FIELD_REGIME]) \<and>
   sorted (map rw_msg_field_ordinal
     [RW_FIELD_OP, RW_FIELD_RESULT, RW_FIELD_NAMESPACE, RW_FIELD_NS_IX, RW_FIELD_GENERATION,
      RW_FIELD_DIGEST, RW_FIELD_RECORD, RW_FIELD_TID, RW_FIELD_INFO,
      RW_FIELD_LAST_UPDATE_TIME, RW_FIELD_REGIME]) \<and>
   (\<forall>n < rw_msg_field_ordinal NUM_RW_FIELDS.
      n \<notin> set [0, 1, 2, 3, 4, 5, 6, 10, 12, 16, 19] \<longrightarrow>
      (\<exists>f. rw_msg_field_ordinal f = n \<and> rw_msg_field_unused f))"
proof -
  have "\<forall>n < rw_msg_field_ordinal NUM_RW_FIELDS.
      n \<notin> set [0, 1, 2, 3, 4, 5, 6, 10, 12, 16, 19] \<longrightarrow>
      (\<exists>f. rw_msg_field_ordinal f = n \<and> rw_msg_field_unused f)"
    using unused_slot_below_count by (simp add: rw_msg_field_ordinal_simps)
  then show ?thesis
    by (simp add: rw_msg_field_ordinal_simps)
qed

theorem rw_msg_field_ordinals_witness:
  "(7::nat) < rw_msg_field_ordinal NUM_RW_FIELDS \<and>
   (7::nat) \<notin> set [0, 1, 2, 3, 4, 5, 6, 10, 12, 16, 19] \<and>
   (\<exists>f. rw_msg_field_ordinal f = 7 \<and> rw_msg_field_unused f) \<and>
   rw_msg_field_ordinal RW_FIELD_TID = 10"
proof -
  have "\<exists>f. rw_msg_field_ordinal f = 7 \<and> rw_msg_field_unused f"
    using rw_msg_field_ordinals by (simp add: rw_msg_field_ordinal_simps)
  moreover have "rw_msg_field_ordinal RW_FIELD_TID = 10"
    using rw_msg_field_ordinals by simp
  ultimately show ?thesis
    by (simp add: rw_msg_field_ordinal_simps)
qed

subsection \<open>The request registry\<close>

lemma registry_apply_distinct:
  "distinct (map fst t) \<Longrightarrow> distinct (map fst (registry_apply op t))"
proof (cases op)
  case (Insert hkey rw)
  assume "distinct (map fst t)"
  then show ?thesis
    by (auto simp: Insert rw_request_hash_insert_def rw_request_hash_get_def map_of_eq_None_iff
        split: option.splits)
next
  case (Delete hkey rw)
  assume "distinct (map fst t)"
  then show ?thesis
    by (simp add: Delete rw_request_hash_delete_def distinct_map_filter)
qed

lemma registry_fold_distinct:
  "distinct (map fst t) \<Longrightarrow> distinct (map fst (fold registry_apply ops t))"
  by (induction ops arbitrary: t) (simp_all add: registry_apply_distinct)

lemma distinct_keys_at_most_one:
  "distinct (map fst t) \<Longrightarrow> length (filter (\<lambda>e. fst e = k) t) \<le> 1"
proof (induction t)
  case Nil
  then show ?case by simp
next
  case (Cons e t)
  show ?case
  proof (cases "fst e = k")
    case True
    with Cons.prems have "k \<notin> fst ` set t" by auto
    then have "filter (\<lambda>e. fst e = k) t = []"
      by (auto simp: filter_empty_conv)
    with True show ?thesis by simp
  next
    case False
    with Cons show ?thesis by simp
  qed
qed

text \<open>
  C1. Insert on a key that has a stored entry returns a rejection and the table as it
  was; and after any sequence of inserts and deletes from the empty table, the table
  holds at most one entry for any key.
\<close>

theorem registry_one_entry_per_key:
  "(rw_request_hash_get hkey t \<noteq> None \<longrightarrow>
      rw_request_hash_insert hkey rw t = (Rejected Key_In_Progress, t)) \<and>
   length (filter (\<lambda>e. fst e = k) (registry_run ops)) \<le> 1"
proof -
  have "distinct (map fst (registry_run ops))"
    unfolding registry_run_def as_rw_init_def
    by (rule registry_fold_distinct) simp
  then have "length (filter (\<lambda>e. fst e = k) (registry_run ops)) \<le> 1"
    by (rule distinct_keys_at_most_one)
  then show ?thesis
    by (auto simp: rw_request_hash_insert_def)
qed

theorem registry_one_entry_per_key_witness:
  "rw_request_hash_get \<lparr>ns_ix = 1, keyd = 5\<rparr> [(\<lparr>ns_ix = 1, keyd = 5\<rparr>, 4096)] \<noteq> None \<and>
   rw_request_hash_insert \<lparr>ns_ix = 1, keyd = 5\<rparr> 8192 [(\<lparr>ns_ix = 1, keyd = 5\<rparr>, 4096)]
     = (Rejected Key_In_Progress, [(\<lparr>ns_ix = 1, keyd = 5\<rparr>, 4096)]) \<and>
   length (filter (\<lambda>e. fst e = \<lparr>ns_ix = 1, keyd = 5\<rparr>)
     (registry_run [Insert \<lparr>ns_ix = 1, keyd = 5\<rparr> 4096, Insert \<lparr>ns_ix = 1, keyd = 5\<rparr> 8192]))
     \<le> 1"
  using registry_one_entry_per_key
    [of "\<lparr>ns_ix = 1, keyd = 5\<rparr>" "[(\<lparr>ns_ix = 1, keyd = 5\<rparr>, 4096)]" 8192
        "\<lparr>ns_ix = 1, keyd = 5\<rparr>"
        "[Insert \<lparr>ns_ix = 1, keyd = 5\<rparr> 4096, Insert \<lparr>ns_ix = 1, keyd = 5\<rparr> 8192]"]
  by (simp add: rw_request_hash_get_def)

lemma map_of_filter_other_keys:
  "k' \<noteq> k \<Longrightarrow> map_of (filter (\<lambda>e. fst e \<noteq> k) t) k' = map_of t k'"
  by (induction t) auto

lemma map_of_filter_this_key:
  "map_of (filter (\<lambda>e. fst e \<noteq> k) t) k = None"
  by (induction t) auto

text \<open>
  C8. Delete with the entry that is stored under the key removes the key's mapping and
  no other key's; delete with any other entry (none stored, or a different one, such as
  a newer entry under the same key) leaves the table as it was.
\<close>

theorem rw_request_hash_delete_identity:
  "(rw_request_hash_get hkey t = Some rw \<longrightarrow>
      rw_request_hash_get hkey (rw_request_hash_delete hkey rw t) = None \<and>
      (\<forall>k. k \<noteq> hkey \<longrightarrow>
         rw_request_hash_get k (rw_request_hash_delete hkey rw t) = rw_request_hash_get k t)) \<and>
   (rw_request_hash_get hkey t \<noteq> Some rw \<longrightarrow> rw_request_hash_delete hkey rw t = t)"
  by (simp add: rw_request_hash_delete_def rw_request_hash_get_def
      map_of_filter_other_keys map_of_filter_this_key)

theorem rw_request_hash_delete_identity_witness:
  "rw_request_hash_get \<lparr>ns_ix = 1, keyd = 5\<rparr>
     [(\<lparr>ns_ix = 1, keyd = 5\<rparr>, 4096), (\<lparr>ns_ix = 1, keyd = 6\<rparr>, 12288)] = Some 4096 \<and>
   rw_request_hash_get \<lparr>ns_ix = 1, keyd = 5\<rparr>
     (rw_request_hash_delete \<lparr>ns_ix = 1, keyd = 5\<rparr> 4096
        [(\<lparr>ns_ix = 1, keyd = 5\<rparr>, 4096), (\<lparr>ns_ix = 1, keyd = 6\<rparr>, 12288)]) = None \<and>
   rw_request_hash_get \<lparr>ns_ix = 1, keyd = 5\<rparr>
     [(\<lparr>ns_ix = 1, keyd = 5\<rparr>, 8192), (\<lparr>ns_ix = 1, keyd = 6\<rparr>, 12288)] \<noteq> Some 4096 \<and>
   rw_request_hash_delete \<lparr>ns_ix = 1, keyd = 5\<rparr> 4096
     [(\<lparr>ns_ix = 1, keyd = 5\<rparr>, 8192), (\<lparr>ns_ix = 1, keyd = 6\<rparr>, 12288)]
     = [(\<lparr>ns_ix = 1, keyd = 5\<rparr>, 8192), (\<lparr>ns_ix = 1, keyd = 6\<rparr>, 12288)]"
  using
    rw_request_hash_delete_identity
      [of "\<lparr>ns_ix = 1, keyd = 5\<rparr>"
          "[(\<lparr>ns_ix = 1, keyd = 5\<rparr>, 4096), (\<lparr>ns_ix = 1, keyd = 6\<rparr>, 12288)]" 4096]
    rw_request_hash_delete_identity
      [of "\<lparr>ns_ix = 1, keyd = 5\<rparr>"
          "[(\<lparr>ns_ix = 1, keyd = 5\<rparr>, 8192), (\<lparr>ns_ix = 1, keyd = 6\<rparr>, 12288)]" 4096]
  by (simp add: rw_request_hash_get_def)

subsection \<open>File names that udf-put refuses\<close>

lemma strchr_None_iff: "strchr s c = None \<longleftrightarrow> c \<notin> set s"
  by (induction s) auto

lemma strchr_first: "c \<notin> set stem \<Longrightarrow> strchr (stem @ c # rest) c = Some (length stem)"
  by (induction stem) auto

text \<open>
  What the check of the file name does refuse: when the \<^verbatim>\<open>filename\<close> parameter is
  missing (a return code other than 0), or the name has no \<^verbatim>\<open>.\<close>, or starts with
  \<^verbatim>\<open>.\<close>, or has nothing after its first \<^verbatim>\<open>.\<close>, then \<open>udf_cask_info_put\<close> appends
  \<^verbatim>\<open>error=invalid_filename\<close> to the output buffer and returns 0, with nothing decoded,
  validated or handed to the metadata service.
\<close>

lemma udf_cask_info_put_invalid_filename:
  assumes "as_info_parameter_get E params ''filename'' 128 = (rc, filename)"
    and "rc \<noteq> 0 \<or> CHR ''.'' \<notin> set filename \<or> (\<exists>rest. filename = CHR ''.'' # rest) \<or>
         (\<exists>stem. filename = stem @ ''.'' \<and> CHR ''.'' \<notin> set stem)"
  shows "udf_cask_info_put E name params out = (0, out @ ''error=invalid_filename'', [])"
proof -
  have "rc \<noteq> 0 \<or>
        (case strchr filename CHR ''.'' of
           None \<Rightarrow> True
         | Some tmp_char \<Rightarrow> tmp_char = 0 \<or> strlen (drop tmp_char filename) \<le> 1)"
    using assms(2)
  proof (elim disjE exE conjE)
    assume "CHR ''.'' \<notin> set filename"
    then show ?thesis by (simp add: strchr_None_iff [symmetric])
  next
    fix stem
    assume "filename = stem @ ''.''" and "CHR ''.'' \<notin> set stem"
    then show ?thesis by (simp add: strchr_first strlen_def)
  qed auto
  with assms(1) show ?thesis
    by (simp add: udf_cask_info_put_def)
qed

lemma udf_cask_info_put_refuses_abc_dot:
  "udf_cask_info_put
     (put_env\<lparr>as_info_parameter_get := \<lambda>params name size. (0, ''abc.'')\<rparr>)
     ''udf-put'' ''filename=abc.'' [] = (0, ''error=invalid_filename'', [])"
proof -
  have "\<exists>stem. ''abc.'' = stem @ ''.'' \<and> CHR ''.'' \<notin> set stem"
    by (rule exI [of _ "''abc''"]) simp
  then show ?thesis
    using udf_cask_info_put_invalid_filename
      [of "put_env\<lparr>as_info_parameter_get := \<lambda>params name size. (0, ''abc.'')\<rparr>"
          "''filename=abc.''" 0 "''abc.''" "''udf-put''" "[]"]
    by simp
qed

text \<open>
  C10. The claim is that a file name ending with \<^verbatim>\<open>.\<close> is refused with
  \<^verbatim>\<open>error=invalid_filename\<close>, nothing being decoded or registered. The code looks at
  the first \<^verbatim>\<open>.\<close> of the name only (\<^verbatim>\<open>strchr\<close>): for the name \<^verbatim>\<open>a.b.\<close>, which ends
  with \<^verbatim>\<open>.\<close>, the call decodes the content, validates it, hands the UDF to the metadata
  service and returns 0 with no error in the output buffer.
\<close>

theorem udf_cask_info_put_trailing_dot_registered:
  "as_info_parameter_get put_env put_command ''filename'' 128 = (0, ''a.b.'') \<and>
   last ''a.b.'' = CHR ''.'' \<and>
   udf_cask_info_put put_env ''udf-put'' put_command []
     = (0, [],
        [B64_DECODE ''QQ=='', MODULE_VALIDATE ''a.b.'' ''A'', SMD_SET ''a.b.'' ''a.b.:LUA:QQ==''])"
  by (simp add: udf_cask_info_put_def put_env_def put_params_def strlen_def
      udf_type_getid_def as_udf_type_name_def)

theorem udf_cask_info_put_trailing_dot_registered_witness:
  "udf_cask_info_put put_env ''udf-put'' put_command []
     \<noteq> (0, ''error=invalid_filename'', [])"
  using udf_cask_info_put_trailing_dot_registered by simp

end
